theory Spec2Isabelle
  imports Main
begin

section \<open>The chat-with-ai edge function\<close>

text \<open>
  A shallow embedding of \<^verbatim>\<open>supabase/functions/chat-with-ai/index.ts\<close>: the handler
  passed to \<^verbatim>\<open>serve\<close>. The rows the handler reads are typed after the table
  definitions of the migration (profiles, credit_info, financial_goals, chat_history);
  a nullable column is an \<open>option\<close>. The columns the handler never looks at (id,
  user_id, notes and the time stamps of the rows read) are left out.
\<close>

subsection \<open>Rows\<close>

text \<open>
  An INTEGER column arrives as a JavaScript number and is an \<open>int\<close> here. A
  DECIMAL(n,2) column arrives as a JavaScript number too; it is kept as the number of
  hundredths, an \<open>int\<close>.
\<close>

type_synonym decimal2 = int

record profile =
  first_name :: "string option"
  last_name :: "string option"
  age :: "int option"
  email :: "string option"

record credit_info =
  credit_score :: "int option"
  total_debt :: "decimal2 option"
  late_payments :: "int option"
  credit_utilization :: "decimal2 option"

record financial_goal =
  title :: string
  description :: "string option"
  target_amount :: "decimal2 option"
  target_date :: "string option"
  priority :: "string option"
  status :: "string option"

subsection \<open>Numbers in template literals\<close>

text \<open>
  A template literal prints a number with Number's toString: decimal digits, a leading
  minus sign for a negative number, no fraction for a whole number.
\<close>

definition digit_char :: "nat \<Rightarrow> char" where
  "digit_char d =
     (if d = 0 then CHR ''0'' else if d = 1 then CHR ''1'' else if d = 2 then CHR ''2''
      else if d = 3 then CHR ''3'' else if d = 4 then CHR ''4'' else if d = 5 then CHR ''5''
      else if d = 6 then CHR ''6'' else if d = 7 then CHR ''7'' else if d = 8 then CHR ''8''
      else CHR ''9'')"

fun show_nat :: "nat \<Rightarrow> string" where
  "show_nat n =
     (if n < 10 then [digit_char n] else show_nat (n div 10) @ [digit_char (n mod 10)])"

declare show_nat.simps [simp del]

definition show_int :: "int \<Rightarrow> string" where
  "show_int i = (if i < 0 then ''-'' @ show_nat (nat (- i)) else show_nat (nat i))"

text \<open>
  A value of a DECIMAL(12,2) or DECIMAL(5,2) column has at most twelve significant
  digits, which a double carries unchanged from the JSON text to the printed number:
  the whole part, then the fraction without its trailing zeros, and no fraction at all
  when the hundredths are zero.
\<close>

definition show_fraction :: "nat \<Rightarrow> string" where
  "show_fraction r =
     (if r = 0 then ''''
      else if r mod 10 = 0 then ''.'' @ [digit_char (r div 10)]
      else ''.'' @ [digit_char (r div 10), digit_char (r mod 10)])"

definition show_decimal :: "decimal2 \<Rightarrow> string" where
  "show_decimal c =
     (let a = nat \<bar>c\<bar> in
      (if c < 0 then ''-'' else '''') @ show_nat (a div 100) @ show_fraction (a mod 100))"

subsection \<open>Truthiness\<close>

text \<open>
  The source chooses its fallbacks with \<^verbatim>\<open>x || d\<close> and \<^verbatim>\<open>x ? a : b\<close>, which test
  whether \<open>x\<close> is truthy: null, undefined, the number 0 and the empty string are not.
\<close>

definition truthy_str :: "string option \<Rightarrow> bool" where
  "truthy_str x = (case x of None \<Rightarrow> False | Some s \<Rightarrow> s \<noteq> [])"

definition truthy_num :: "int option \<Rightarrow> bool" where
  "truthy_num x = (case x of None \<Rightarrow> False | Some n \<Rightarrow> n \<noteq> 0)"

text \<open>\<^verbatim>\<open>${x || d}\<close> for a text column.\<close>

definition or_str :: "string option \<Rightarrow> string \<Rightarrow> string" where
  "or_str x d = (case x of None \<Rightarrow> d | Some s \<Rightarrow> if s = [] then d else s)"

text \<open>\<^verbatim>\<open>${x || d}\<close> for an INTEGER column and a string \<open>d\<close>.\<close>

definition or_int :: "int option \<Rightarrow> string \<Rightarrow> string" where
  "or_int x d = (case x of None \<Rightarrow> d | Some n \<Rightarrow> if n = 0 then d else show_int n)"

text \<open>\<^verbatim>\<open>${x || d}\<close> for a DECIMAL column and a string \<open>d\<close>.\<close>

definition or_decimal :: "decimal2 option \<Rightarrow> string \<Rightarrow> string" where
  "or_decimal x d = (case x of None \<Rightarrow> d | Some c \<Rightarrow> if c = 0 then d else show_decimal c)"

text \<open>\<^verbatim>\<open>${x || 0}\<close> for an INTEGER column: the fallback is the number 0.\<close>

definition or_zero :: "int option \<Rightarrow> string" where
  "or_zero x = show_int (case x of None \<Rightarrow> 0 | Some n \<Rightarrow> if n = 0 then 0 else n)"

text \<open>\<^verbatim>\<open>${x}\<close> for a nullable column: null prints as the word null.\<close>

definition template_str :: "string option \<Rightarrow> string" where
  "template_str x = (case x of None \<Rightarrow> ''null'' | Some s \<Rightarrow> s)"

definition template_decimal :: "decimal2 option \<Rightarrow> string" where
  "template_decimal x = (case x of None \<Rightarrow> ''null'' | Some c \<Rightarrow> show_decimal c)"

text \<open>\<^verbatim>\<open>profile?.f\<close>: undefined when the profile is null.\<close>

definition opt_field :: "('r \<Rightarrow> 'a option) \<Rightarrow> 'r option \<Rightarrow> 'a option" where
  "opt_field f r = (case r of None \<Rightarrow> None | Some p \<Rightarrow> f p)"

subsection \<open>The system prompt\<close>

definition persona_preamble :: string where
  "persona_preamble =
     ''You are a helpful financial coach AI assistant. You provide personalized financial advice based on the user's information.''"

definition closing_instruction :: string where
  "closing_instruction =
     ''Please provide helpful, personalized financial advice based on this information. Be encouraging, practical, and specific in your recommendations. If you don't have enough information about something, ask clarifying questions.''"

text \<open>The first template literal (lines 82 to 87 of the source).\<close>

definition user_information :: "profile option \<Rightarrow> string" where
  "user_information p =
     persona_preamble @ ''\<newline>\<newline>User Information:\<newline>- Name: ''
     @ or_str (opt_field first_name p) ''Unknown'' @ '' '' @ or_str (opt_field last_name p) ''''
     @ ''\<newline>- Age: '' @ or_int (opt_field age p) ''Not provided''
     @ ''\<newline>- Email: '' @ or_str (opt_field email p) ''Not provided''"

text \<open>The text added when \<^verbatim>\<open>creditInfo\<close> is truthy (lines 90 to 96).\<close>

definition credit_information :: "credit_info \<Rightarrow> string" where
  "credit_information c =
     ''\<newline>\<newline>Credit Information:\<newline>- Credit Score: '' @ or_int (credit_score c) ''Not provided''
     @ ''\<newline>- Total Debt: $'' @ or_decimal (total_debt c) ''Not provided''
     @ ''\<newline>- Late Payments: '' @ or_zero (late_payments c)
     @ ''\<newline>- Credit Utilization: '' @ or_decimal (credit_utilization c) ''Not provided'' @ ''%''"

text \<open>
  The body of the \<^verbatim>\<open>forEach\<close> callback (lines 104 to 113): it appends to the prompt
  the entry of one goal, and then its description when that is truthy.
\<close>

definition goal_callback :: "string \<Rightarrow> financial_goal \<Rightarrow> nat \<Rightarrow> string" where
  "goal_callback prompt goal index =
     (let prompt1 = prompt @ ''\<newline>'' @ show_nat (index + 1) @ ''. '' @ title goal
            @ (if truthy_num (target_amount goal)
               then '' (Target: $'' @ template_decimal (target_amount goal) @ '')'' else '''')
            @ (if truthy_str (target_date goal)
               then '' (Due: '' @ template_str (target_date goal) @ '')'' else '''')
            @ ''\<newline>   Status: '' @ or_str (status goal) ''active''
            @ ''\<newline>   Priority: '' @ or_str (priority goal) ''medium''
      in if truthy_str (description goal)
         then prompt1 @ ''\<newline>   Description: '' @ template_str (description goal)
         else prompt1)"

text \<open>\<^verbatim>\<open>goals.forEach\<close>: the callback on each element, from index 0 upwards.\<close>

fun goals_forEach :: "string \<Rightarrow> financial_goal list \<Rightarrow> nat \<Rightarrow> string" where
  "goals_forEach prompt [] index = prompt"
| "goals_forEach prompt (goal # rest) index =
     goals_forEach (goal_callback prompt goal index) rest (index + 1)"

text \<open>
  Lines 82 to 119. \<^verbatim>\<open>goals\<close> is null when the query failed; \<^verbatim>\<open>goals && goals.length > 0\<close>
  is then falsy, as it is for the empty list.
\<close>

definition systemPrompt ::
  "profile option \<Rightarrow> credit_info option \<Rightarrow> financial_goal list option \<Rightarrow> string" where
  "systemPrompt profile creditInfo goals =
     (let p0 = user_information profile;
          p1 = (case creditInfo of None \<Rightarrow> p0 | Some c \<Rightarrow> p0 @ credit_information c);
          p2 = (case goals of
                  None \<Rightarrow> p1
                | Some gs \<Rightarrow>
                    if length gs > 0
                    then goals_forEach (p1 @ ''\<newline>\<newline>Financial Goals:'') gs 0
                    else p1)
      in p2 @ ''\<newline>\<newline>'' @ closing_instruction)"

subsection \<open>JavaScript values and thrown errors\<close>

text \<open>
  What \<^verbatim>\<open>JSON.parse\<close> can return, and \<^verbatim>\<open>undefined\<close>, which a property read can
  return. An object is the list of its own properties, each key once. The handler never
  computes with a number inside such a value, so whole numbers stand for all of them.
\<close>

datatype jsval =
    JUndefined
  | JNull
  | JBool bool
  | JNum int
  | JStr string
  | JArr "jsval list"
  | JObj "(string \<times> jsval) list"

text \<open>
  What the guarded block of the handler can throw: an \<^verbatim>\<open>Error\<close> the source constructs itself, a
  rejection of the runtime with the runtime's message (\<^verbatim>\<open>req.json()\<close>, \<^verbatim>\<open>fetch\<close>,
  \<^verbatim>\<open>response.text()\<close>, \<^verbatim>\<open>response.json()\<close>), and the TypeError of reading or of
  destructuring a property of null or undefined.
\<close>

datatype js_error =
    Error string
  | Rejected string
  | CannotRead jsval string
  | CannotDestructure jsval string

definition null_or_undefined :: "jsval \<Rightarrow> string" where
  "null_or_undefined v = (if v = JNull then ''null'' else ''undefined'')"

text \<open>\<^verbatim>\<open>error.message\<close>. The wording of the two TypeErrors is the engine's.\<close>

definition error_message :: "js_error \<Rightarrow> string" where
  "error_message e =
     (case e of
        Error m \<Rightarrow> m
      | Rejected m \<Rightarrow> m
      | CannotRead v k \<Rightarrow>
          ''Cannot read properties of '' @ null_or_undefined v
          @ '' (reading '' @ [CHR 0x27] @ k @ [CHR 0x27] @ '')''
      | CannotDestructure v k \<Rightarrow>
          ''Cannot destructure property '' @ [CHR 0x27] @ k @ [CHR 0x27]
          @ '' of '' @ [CHR 0x27] @ ''(intermediate value)'' @ [CHR 0x27]
          @ '' as it is '' @ null_or_undefined v @ ''.'')"

definition nullish :: "jsval \<Rightarrow> bool" where
  "nullish v = (v = JNull \<or> v = JUndefined)"

text \<open>
  \<^verbatim>\<open>v.k\<close> and \<^verbatim>\<open>v[0]\<close> (the key \<open>''0''\<close>), for the keys the handler reads (message,
  choices, 0, content), none of which a prototype defines: a read from null or undefined
  throws; an object gives its own property or undefined; an array and a string give
  their first element at key 0; every other read gives undefined.
\<close>

definition get_prop :: "jsval \<Rightarrow> string \<Rightarrow> js_error + jsval" where
  "get_prop v k =
     (case v of
        JUndefined \<Rightarrow> Inl (CannotRead v k)
      | JNull \<Rightarrow> Inl (CannotRead v k)
      | JObj props \<Rightarrow> (case map_of props k of None \<Rightarrow> Inr JUndefined | Some x \<Rightarrow> Inr x)
      | JArr xs \<Rightarrow>
          (if k = ''0'' then (case xs of [] \<Rightarrow> Inr JUndefined | x # _ \<Rightarrow> Inr x)
           else Inr JUndefined)
      | JStr s \<Rightarrow>
          (if k = ''0'' then (case s of [] \<Rightarrow> Inr JUndefined | c # _ \<Rightarrow> Inr (JStr [c]))
           else Inr JUndefined)
      | _ \<Rightarrow> Inr JUndefined)"

definition then_read :: "js_error + jsval \<Rightarrow> string \<Rightarrow> js_error + jsval" where
  "then_read r k = (case r of Inl e \<Rightarrow> Inl e | Inr v \<Rightarrow> get_prop v k)"

subsection \<open>The request, the services the handler calls, and the world it changes\<close>

text \<open>
  \<open>req_json\<close> is what \<^verbatim>\<open>await req.json()\<close> gives: a rejection, when the body is missing
  or is not JSON, or the parsed body.
\<close>

record request =
  req_method :: string
  authorization :: "string option"
  req_json :: "js_error + jsval"

record api_error =
  code :: string
  details :: string

text \<open>The user of \<^verbatim>\<open>getUser\<close>; \<open>uid\<close> is its \<^verbatim>\<open>id\<close>.\<close>

record user =
  uid :: string

record auth_response =
  auth_user :: "user option"
  auth_error :: "api_error option"

record 'a query_result =
  qdata :: "'a option"
  qerror :: "api_error option"

text \<open>
  \<open>resp_text\<close> is what \<^verbatim>\<open>await response.text()\<close> gives and \<open>resp_json\<close> what
  \<^verbatim>\<open>await response.json()\<close> gives: a rejection or the body, as text and parsed.
\<close>

record http_response =
  resp_status :: nat
  resp_text :: "js_error + string"
  resp_json :: "js_error + jsval"

datatype fetch_outcome = FetchRejected string | FetchResponse http_response

text \<open>\<^verbatim>\<open>response.ok\<close>: the status is in the range 200 to 299.\<close>

definition response_ok :: "http_response \<Rightarrow> bool" where
  "response_ok r = (200 \<le> resp_status r \<and> resp_status r \<le> 299)"

text \<open>
  The answers of the outside world to the calls of one request, in the order the handler
  makes them. An insert answers with an error or with none; the row is in the table
  after the call in the second case only.
\<close>

record environment =
  OPEN_AI_API_KEY :: "string option"
  getUser :: auth_response
  profiles_single :: "profile query_result"
  credit_info_single :: "credit_info query_result"
  financial_goals_select :: "financial_goal list query_result"
  fetch :: fetch_outcome
  insert_user_message :: "api_error option"
  insert_ai_message :: "api_error option"

record chat_row =
  user_id :: string
  message :: jsval
  is_user_message :: bool

text \<open>The body of the request to the provider; a message is its role and its content.\<close>

record openai_request =
  bearer :: string
  model :: string
  messages :: "(string \<times> jsval) list"
  temperature :: decimal2
  max_tokens :: nat

text \<open>The calls to the outside, as made; a select names its table and the user id.\<close>

datatype call =
    Call_getUser
  | Call_select string string
  | Call_req_json
  | Call_fetch openai_request
  | Call_insert chat_row

datatype logarg =
    LogNothing
  | LogText string
  | LogValue jsval
  | LogApiError "api_error option"
  | LogThrown js_error

datatype log_entry = ConsoleLog string logarg | ConsoleError string logarg

record world =
  chat_history :: "chat_row list"
  calls :: "call list"
  console :: "log_entry list"

definition called :: "call \<Rightarrow> world \<Rightarrow> world" where
  "called c w = w\<lparr>calls := calls w @ [c]\<rparr>"

definition console_log :: "string \<Rightarrow> logarg \<Rightarrow> world \<Rightarrow> world" where
  "console_log label a w = w\<lparr>console := console w @ [ConsoleLog label a]\<rparr>"

definition console_error :: "string \<Rightarrow> logarg \<Rightarrow> world \<Rightarrow> world" where
  "console_error label a w = w\<lparr>console := console w @ [ConsoleError label a]\<rparr>"

text \<open>\<^verbatim>\<open>supabase.from('chat_history').insert(row)\<close> with the answer \<open>answer\<close>.\<close>

definition insert_chat_history :: "api_error option \<Rightarrow> chat_row \<Rightarrow> world \<Rightarrow> world" where
  "insert_chat_history answer row w =
     (let w1 = called (Call_insert row) w
      in case answer of
           None \<Rightarrow> w1\<lparr>chat_history := chat_history w1 @ [row]\<rparr>
         | Some e \<Rightarrow> w1)"

datatype body = NullBody | JSON_stringify jsval

record response =
  res_status :: nat
  res_headers :: "(string \<times> string) list"
  res_body :: body

definition corsHeaders :: "(string \<times> string) list" where
  "corsHeaders =
     [(''Access-Control-Allow-Origin'', ''*''),
      (''Access-Control-Allow-Headers'', ''authorization, x-client-info, apikey, content-type'')]"

subsection \<open>The handler\<close>

text \<open>
  Lines 34 to 43: \<^verbatim>\<open>supabase.auth.getUser()\<close>, and the throw when it answers with an
  error or without a user.
\<close>

definition get_user :: "environment \<Rightarrow> world \<Rightarrow> (js_error + user) \<times> world" where
  "get_user env w =
     (let w1 = called Call_getUser w
      in case auth_user (getUser env) of
           None \<Rightarrow>
             (Inl (Error ''User not authenticated''),
              console_error ''User error:'' (LogApiError (auth_error (getUser env))) w1)
         | Some u \<Rightarrow>
             (if auth_error (getUser env) \<noteq> None
              then (Inl (Error ''User not authenticated''),
                    console_error ''User error:'' (LogApiError (auth_error (getUser env))) w1)
              else (Inr u, console_log ''User authenticated:'' (LogText (uid u)) w1)))"

text \<open>
  Lines 45 to 75: the three reads. An error is logged (for credit_info, unless its code
  is PGRST116) and the data goes on as it came.
\<close>

definition read_state ::
  "environment \<Rightarrow> user \<Rightarrow> world \<Rightarrow>
     (profile option \<times> credit_info option \<times> financial_goal list option) \<times> world" where
  "read_state env u w =
     (let w1 = called (Call_select ''profiles'' (uid u)) w;
          w2 = (if qerror (profiles_single env) \<noteq> None
                then console_error ''Profile error:'' (LogApiError (qerror (profiles_single env))) w1
                else w1);
          w3 = called (Call_select ''credit_info'' (uid u)) w2;
          w4 = (case qerror (credit_info_single env) of
                  None \<Rightarrow> w3
                | Some e \<Rightarrow>
                    if code e \<noteq> ''PGRST116''
                    then console_error ''Credit info error:'' (LogApiError (Some e)) w3
                    else w3);
          w5 = called (Call_select ''financial_goals'' (uid u)) w4;
          w6 = (if qerror (financial_goals_select env) \<noteq> None
                then console_error ''Goals error:''
                       (LogApiError (qerror (financial_goals_select env))) w5
                else w5)
      in ((qdata (profiles_single env), qdata (credit_info_single env),
           qdata (financial_goals_select env)), w6))"

text \<open>Line 78: \<^verbatim>\<open>const { message } = await req.json()\<close>, and line 79.\<close>

definition destructure_message :: "js_error + jsval \<Rightarrow> js_error + jsval" where
  "destructure_message parsed =
     (case parsed of
        Inl e \<Rightarrow> Inl e
      | Inr v \<Rightarrow> if nullish v then Inl (CannotDestructure v ''message'') else get_prop v ''message'')"

definition parse_body :: "request \<Rightarrow> world \<Rightarrow> (js_error + jsval) \<times> world" where
  "parse_body req w =
     (let w1 = called Call_req_json w
      in case destructure_message (req_json req) of
           Inl e \<Rightarrow> (Inl e, w1)
         | Inr m \<Rightarrow> (Inr m, console_log ''User message:'' (LogValue m) w1))"

text \<open>Lines 124 to 139: the request sent to the completion provider.\<close>

definition chat_completion_request :: "string \<Rightarrow> string \<Rightarrow> jsval \<Rightarrow> openai_request" where
  "chat_completion_request openAIApiKey prompt m =
     \<lparr>bearer = openAIApiKey, model = ''gpt-4o-mini'',
      messages = [(''system'', JStr prompt), (''user'', m)],
      temperature = 70, max_tokens = 1000\<rparr>"

text \<open>Line 148: \<^verbatim>\<open>data.choices[0].message.content\<close>.\<close>

definition choices_0_message_content :: "jsval \<Rightarrow> js_error + jsval" where
  "choices_0_message_content data =
     then_read (then_read (then_read (get_prop data ''choices'') ''0'') ''message'') ''content''"

text \<open>Lines 124 to 150: the call of the provider and the reply taken from its answer.\<close>

definition call_openai ::
  "environment \<Rightarrow> string \<Rightarrow> string \<Rightarrow> jsval \<Rightarrow> world \<Rightarrow> (js_error + jsval) \<times> world" where
  "call_openai env openAIApiKey prompt m w =
     (let w1 = called (Call_fetch (chat_completion_request openAIApiKey prompt m)) w
      in case fetch env of
           FetchRejected reason \<Rightarrow> (Inl (Rejected reason), w1)
         | FetchResponse r \<Rightarrow>
             if \<not> response_ok r
             then (case resp_text r of
                     Inl e \<Rightarrow> (Inl e, w1)
                   | Inr errorData \<Rightarrow>
                       (Inl (Error (''OpenAI API error: '' @ show_nat (resp_status r))),
                        console_error ''OpenAI API error:'' (LogText errorData) w1))
             else (case resp_json r of
                     Inl e \<Rightarrow> (Inl e, w1)
                   | Inr data \<Rightarrow>
                       (case choices_0_message_content data of
                          Inl e \<Rightarrow> (Inl e, w1)
                        | Inr aiResponse \<Rightarrow>
                            (Inr aiResponse, console_log ''AI response generated'' LogNothing w1))))"

text \<open>Lines 152 to 173: the two inserts; an error of either is logged and nothing more.\<close>

definition save_messages :: "environment \<Rightarrow> user \<Rightarrow> jsval \<Rightarrow> jsval \<Rightarrow> world \<Rightarrow> world" where
  "save_messages env u m aiResponse w =
     (let w1 = insert_chat_history (insert_user_message env)
                 \<lparr>user_id = uid u, message = m, is_user_message = True\<rparr> w;
          w2 = (if insert_user_message env \<noteq> None
                then console_error ''Error saving user message:''
                       (LogApiError (insert_user_message env)) w1
                else w1);
          w3 = insert_chat_history (insert_ai_message env)
                 \<lparr>user_id = uid u, message = aiResponse, is_user_message = False\<rparr> w2;
          w4 = (if insert_ai_message env \<noteq> None
                then console_error ''Error saving AI message:''
                       (LogApiError (insert_ai_message env)) w3
                else w3)
      in console_log ''Messages saved to chat history'' LogNothing w4)"

definition json_headers :: "(string \<times> string) list" where
  "json_headers = corsHeaders @ [(''Content-Type'', ''application/json'')]"

text \<open>
  Lines 175 to 177, the answer with the reply, and lines 180 to 183, the answer of the
  \<^verbatim>\<open>catch\<close> block. A \<^verbatim>\<open>Response\<close> made without a status has status 200.
\<close>

definition reply_response :: "jsval \<Rightarrow> response" where
  "reply_response aiResponse =
     \<lparr>res_status = 200, res_headers = json_headers,
      res_body = JSON_stringify (JObj [(''response'', aiResponse)])\<rparr>"

definition error_response :: "string \<Rightarrow> response" where
  "error_response text =
     \<lparr>res_status = 500, res_headers = json_headers,
      res_body = JSON_stringify (JObj [(''error'', JStr text)])\<rparr>"

text \<open>
  The guarded block, lines 17 to 177: a thrown error is \<open>Inl\<close>. SUPABASE_URL and
  SUPABASE_ANON_KEY are taken to be set, as the platform sets them, so that
  \<^verbatim>\<open>createClient\<close> does not throw.
\<close>

definition try_block :: "environment \<Rightarrow> request \<Rightarrow> world \<Rightarrow> (js_error + response) \<times> world" where
  "try_block env req w =
     (if \<not> truthy_str (OPEN_AI_API_KEY env) then (Inl (Error ''OPEN_AI_API_KEY is not set''), w)
      else
        case get_user env w of
          (Inl e, w1) \<Rightarrow> (Inl e, w1)
        | (Inr u, w1) \<Rightarrow>
            (case read_state env u w1 of
               ((profile, creditInfo, goals), w2) \<Rightarrow>
                 (case parse_body req w2 of
                    (Inl e, w3) \<Rightarrow> (Inl e, w3)
                  | (Inr m, w3) \<Rightarrow>
                      (let prompt = systemPrompt profile creditInfo goals;
                           w4 = console_log ''System prompt created'' LogNothing w3
                       in case call_openai env (template_str (OPEN_AI_API_KEY env)) prompt m w4 of
                            (Inl e, w5) \<Rightarrow> (Inl e, w5)
                          | (Inr aiResponse, w5) \<Rightarrow>
                              (Inr (reply_response aiResponse),
                               save_messages env u m aiResponse w5)))))"

text \<open>
  The handler, lines 10 to 185: the answer to OPTIONS, the guarded block, and the
  \<^verbatim>\<open>catch\<close> block, which logs the error and answers 500 with its message.
\<close>

definition serve :: "environment \<Rightarrow> request \<Rightarrow> world \<Rightarrow> response \<times> world" where
  "serve env req w =
     (if req_method req = ''OPTIONS''
      then (\<lparr>res_status = 200, res_headers = corsHeaders, res_body = NullBody\<rparr>, w)
      else
        case try_block env req w of
          (Inr res, w1) \<Rightarrow> (res, w1)
        | (Inl e, w1) \<Rightarrow>
            (error_response (error_message e),
             console_error ''Error in chat-with-ai function:'' (LogThrown e) w1))"

section \<open>What the claims speak of\<close>

subsection \<open>The goal block, entry by entry\<close>

text \<open>
  The entry of one goal as a text of its own: its number, its title, the target suffix
  when the goal has a target amount other than zero, the due suffix when it has a target
  date other than the empty text, the status and the priority with their fallbacks, and
  the description line when there is a description.
\<close>

definition target_suffix :: "financial_goal \<Rightarrow> string" where
  "target_suffix g =
     (case target_amount g of
        None \<Rightarrow> ''''
      | Some a \<Rightarrow> if a = 0 then '''' else '' (Target: $'' @ show_decimal a @ '')'')"

definition due_suffix :: "financial_goal \<Rightarrow> string" where
  "due_suffix g =
     (case target_date g of
        None \<Rightarrow> ''''
      | Some d \<Rightarrow> if d = [] then '''' else '' (Due: '' @ d @ '')'')"

definition description_line :: "financial_goal \<Rightarrow> string" where
  "description_line g =
     (case description g of
        None \<Rightarrow> ''''
      | Some d \<Rightarrow> if d = [] then '''' else ''\<newline>   Description: '' @ d)"

definition goal_entry :: "nat \<Rightarrow> financial_goal \<Rightarrow> string" where
  "goal_entry n g =
     ''\<newline>'' @ show_nat n @ ''. '' @ title g @ target_suffix g @ due_suffix g
     @ ''\<newline>   Status: '' @ or_str (status g) ''active''
     @ ''\<newline>   Priority: '' @ or_str (priority g) ''medium''
     @ description_line g"

text \<open>The entries of the goals \<open>g1, ..., gN\<close>, numbered 1 to N, in the order of the list.\<close>

definition numbered_goals :: "financial_goal list \<Rightarrow> string" where
  "numbered_goals gs = concat (map (\<lambda>(n, g). goal_entry n g) (zip [1..<Suc (length gs)] gs))"

subsection \<open>The provider's answer and the calls of a turn\<close>

text \<open>
  A parsed answer in which \<open>data\<close>, \<open>data.choices\<close>, \<open>data.choices[0]\<close> or
  \<open>data.choices[0].message\<close> is null or undefined.
\<close>

definition reply_unreadable :: "jsval \<Rightarrow> bool" where
  "reply_unreadable data =
     (case get_prop data ''choices'' of
        Inl _ \<Rightarrow> True
      | Inr choices \<Rightarrow>
          (case get_prop choices ''0'' of
             Inl _ \<Rightarrow> True
           | Inr first \<Rightarrow>
               (case get_prop first ''message'' of
                  Inl _ \<Rightarrow> True
                | Inr reply_message \<Rightarrow> nullish reply_message)))"

text \<open>The calls of a turn up to the parsing of the body, and the call of the provider.\<close>

definition calls_before_fetch :: "user \<Rightarrow> call list" where
  "calls_before_fetch u =
     [Call_getUser, Call_select ''profiles'' (uid u), Call_select ''credit_info'' (uid u),
      Call_select ''financial_goals'' (uid u), Call_req_json]"

definition fetch_call :: "environment \<Rightarrow> jsval \<Rightarrow> call" where
  "fetch_call env m =
     Call_fetch (chat_completion_request (template_str (OPEN_AI_API_KEY env))
       (systemPrompt (qdata (profiles_single env)) (qdata (credit_info_single env))
          (qdata (financial_goals_select env))) m)"

subsection \<open>Example inputs\<close>

definition zero_credit :: credit_info where
  "zero_credit =
     \<lparr>credit_score = Some 0, total_debt = Some 0, late_payments = None,
      credit_utilization = Some 0\<rparr>"

definition house_goal :: financial_goal where
  "house_goal =
     \<lparr>title = ''Buy a house'', description = None, target_amount = Some 40000000,
      target_date = None, priority = Some ''high'', status = Some ''active''\<rparr>"

definition zero_target_goal :: financial_goal where
  "zero_target_goal =
     \<lparr>title = ''Pay off card'', description = Some ''No new debt'', target_amount = Some 0,
      target_date = Some ''2026-01-31'', priority = None, status = None\<rparr>"

definition example_user :: user where
  "example_user = \<lparr>uid = ''user-1''\<rparr>"

definition example_message :: jsval where
  "example_message = JStr ''How much should I save monthly?''"

definition example_request :: request where
  "example_request =
     \<lparr>req_method = ''POST'', authorization = Some ''Bearer token'',
      req_json = Inr (JObj [(''message'', JStr ''How much should I save monthly?'')])\<rparr>"

definition no_body_request :: request where
  "no_body_request =
     \<lparr>req_method = ''POST'', authorization = Some ''Bearer token'',
      req_json = Inl (Rejected ''Unexpected end of JSON input'')\<rparr>"

definition example_payload :: jsval where
  "example_payload =
     JObj [(''choices'',
            JArr [JObj [(''message'',
                         JObj [(''role'', JStr ''assistant''), (''content'', JStr ''Save 500'')])]])]"

definition content_missing_payload :: jsval where
  "content_missing_payload =
     JObj [(''choices'', JArr [JObj [(''message'', JObj [(''role'', JStr ''assistant'')])]])]"

definition no_choices_payload :: jsval where
  "no_choices_payload = JObj [(''choices'', JArr [])]"

definition example_answer :: http_response where
  "example_answer = \<lparr>resp_status = 200, resp_text = Inr '''', resp_json = Inr example_payload\<rparr>"

definition content_missing_answer :: http_response where
  "content_missing_answer =
     \<lparr>resp_status = 200, resp_text = Inr '''', resp_json = Inr content_missing_payload\<rparr>"

definition no_choices_answer :: http_response where
  "no_choices_answer =
     \<lparr>resp_status = 200, resp_text = Inr '''', resp_json = Inr no_choices_payload\<rparr>"

definition rate_limited :: http_response where
  "rate_limited =
     \<lparr>resp_status = 429, resp_text = Inr ''quota exceeded for key sk-test'',
      resp_json = Inl (Rejected ''not JSON'')\<rparr>"




definition storage_down :: api_error where
  "storage_down = \<lparr>code = ''503'', details = ''storage unavailable''\<rparr>"

definition example_env :: environment where
  "example_env =
     \<lparr>OPEN_AI_API_KEY = Some ''sk-test'',
      getUser = \<lparr>auth_user = Some example_user, auth_error = None\<rparr>,
      profiles_single =
        \<lparr>qdata = Some \<lparr>first_name = Some ''Ana'', last_name = None, age = None, email = None\<rparr>,
         qerror = None\<rparr>,
      credit_info_single =
        \<lparr>qdata = None, qerror = Some \<lparr>code = ''PGRST116'', details = ''no rows''\<rparr>\<rparr>,
      financial_goals_select = \<lparr>qdata = Some [house_goal], qerror = None\<rparr>,
      fetch = FetchResponse example_answer,
      insert_user_message = None,
      insert_ai_message = None\<rparr>"

definition recorder_down_env :: environment where
  "recorder_down_env =
     example_env\<lparr>insert_user_message := Some storage_down, insert_ai_message := Some storage_down\<rparr>"


definition rate_limited_env :: environment where
  "rate_limited_env = example_env\<lparr>fetch := FetchResponse rate_limited\<rparr>"

definition no_choices_env :: environment where
  "no_choices_env = example_env\<lparr>fetch := FetchResponse no_choices_answer\<rparr>"

definition content_missing_env :: environment where
  "content_missing_env =
     example_env
       \<lparr>fetch := FetchResponse content_missing_answer,
        insert_ai_message := Some \<lparr>code = ''23502'', details = ''null value in column message''\<rparr>\<rparr>"

definition empty_world :: world where
  "empty_world = \<lparr>chat_history = [], calls = [], console = []\<rparr>"

text \<open>
  What the handler throws after a response that is not ok: the rejection of
  \<^verbatim>\<open>response.text()\<close> if the body cannot be read, and otherwise the error with the status.
\<close>

definition thrown_for_status :: "http_response \<Rightarrow> js_error" where
  "thrown_for_status r =
     (case resp_text r of
        Inl e \<Rightarrow> e
      | Inr errorData \<Rightarrow> Error (''OpenAI API error: '' @ show_nat (resp_status r)))"

section \<open>Lemmas\<close>

subsection \<open>Printed numbers\<close>

lemma digit_char_in: "digit_char d \<in> set ''0123456789''"
  by (simp add: digit_char_def)

lemma show_nat_digits: "set (show_nat n) \<subseteq> set ''0123456789''"
proof (induction n rule: show_nat.induct)
  case (1 n)
  show ?case
  proof (cases "n < 10")
    case True
    then show ?thesis
      using digit_char_in [of n] by (subst show_nat.simps) simp
  next
    case False
    then show ?thesis
      using 1 digit_char_in [of "n mod 10"] by (subst show_nat.simps) simp
  qed
qed

lemma show_nat_not_Nil: "show_nat n \<noteq> []"
  by (subst show_nat.simps) simp

lemma show_nat_hd: "hd (show_nat n) \<in> set ''0123456789''"
  using show_nat_digits [of n] show_nat_not_Nil [of n] hd_in_set by blast

lemma show_int_hd: "hd (show_int i) \<in> set ''-0123456789''"
  using show_nat_hd [of "nat i"] by (auto simp: show_int_def)

lemma show_decimal_hd: "hd (show_decimal c) \<in> set ''-0123456789''"
  using show_nat_hd [of "nat \<bar>c\<bar> div 100"] show_nat_not_Nil [of "nat \<bar>c\<bar> div 100"]
  by (auto simp: show_decimal_def Let_def)

lemma show_int_not_provided: "show_int i \<noteq> ''Not provided''"
  using show_int_hd [of i] by auto

lemma show_decimal_not_provided: "show_decimal c \<noteq> ''Not provided''"
  using show_decimal_hd [of c] by auto

subsection \<open>The loop over the goals\<close>

lemma goal_callback_entry: "goal_callback prompt g i = prompt @ goal_entry (Suc i) g"
  by (simp add: goal_callback_def goal_entry_def target_suffix_def due_suffix_def
      description_line_def truthy_num_def truthy_str_def template_decimal_def template_str_def
      Let_def split: option.splits)

lemma upt_step: "[a..<a + Suc n] = a # [Suc a..<Suc a + n]"
proof -
  have step: "[a..<a + Suc n] = a # [Suc a..<a + Suc n]"
    by (rule upt_conv_Cons) simp
  have shift: "Suc a + n = a + Suc n"
    by simp
  show ?thesis
    unfolding shift by (rule step)
qed

lemma goals_forEach_entries:
  "goals_forEach prompt gs i =
     prompt @ concat (map (\<lambda>(n, g). goal_entry n g) (zip [Suc i..<Suc i + length gs] gs))"
proof (induction gs arbitrary: prompt i)
  case Nil
  show ?case by simp
next
  case (Cons g gs)
  have "goals_forEach prompt (g # gs) i = goals_forEach (prompt @ goal_entry (Suc i) g) gs (Suc i)"
    by (simp add: goal_callback_entry)
  also have "\<dots> = (prompt @ goal_entry (Suc i) g)
      @ concat (map (\<lambda>(n, g). goal_entry n g) (zip [Suc (Suc i)..<Suc (Suc i) + length gs] gs))"
    by (rule Cons.IH)
  also have "\<dots> = prompt
      @ concat (map (\<lambda>(n, g). goal_entry n g)
          (zip (Suc i # [Suc (Suc i)..<Suc (Suc i) + length gs]) (g # gs)))"
    by simp
  also have "Suc i # [Suc (Suc i)..<Suc (Suc i) + length gs] = [Suc i..<Suc i + length (g # gs)]"
    using upt_step [of "Suc i" "length gs"] by simp
  finally show ?case .
qed

lemma goals_forEach_numbered: "goals_forEach prompt gs 0 = prompt @ numbered_goals gs"
  by (simp add: goals_forEach_entries numbered_goals_def)

lemma systemPrompt_blocks:
  "systemPrompt p c g =
     user_information p
     @ (case c of None \<Rightarrow> [] | Some ci \<Rightarrow> credit_information ci)
     @ (case g of
          None \<Rightarrow> []
        | Some gs \<Rightarrow> if gs = [] then [] else ''\<newline>\<newline>Financial Goals:'' @ numbered_goals gs)
     @ ''\<newline>\<newline>'' @ closing_instruction"
  by (simp add: systemPrompt_def Let_def goals_forEach_numbered split: option.splits)

subsection \<open>The stages of the handler\<close>

lemma world_simps [simp]:
  "chat_history (called c w) = chat_history w"
  "calls (called c w) = calls w @ [c]"
  "console (called c w) = console w"
  "chat_history (console_log l a w) = chat_history w"
  "calls (console_log l a w) = calls w"
  "console (console_log l a w) = console w @ [ConsoleLog l a]"
  "chat_history (console_error l a w) = chat_history w"
  "calls (console_error l a w) = calls w"
  "console (console_error l a w) = console w @ [ConsoleError l a]"
  by (simp_all add: called_def console_log_def console_error_def)

lemma insert_chat_history_simps [simp]:
  "chat_history (insert_chat_history None row w) = chat_history w @ [row]"
  "chat_history (insert_chat_history (Some e) row w) = chat_history w"
  "calls (insert_chat_history answer row w) = calls w @ [Call_insert row]"
  "console (insert_chat_history answer row w) = console w"
  by (simp_all add: insert_chat_history_def Let_def split: option.splits)

lemma get_user_ok:
  assumes "auth_user (getUser env) = Some u" and "auth_error (getUser env) = None"
  shows "get_user env w =
           (Inr u, console_log ''User authenticated:'' (LogText (uid u)) (called Call_getUser w))"
  using assms by (simp add: get_user_def Let_def)

lemma read_state_data:
  "fst (read_state env u w) =
     (qdata (profiles_single env), qdata (credit_info_single env),
      qdata (financial_goals_select env))"
  by (simp add: read_state_def Let_def)

lemma read_state_history: "chat_history (snd (read_state env u w)) = chat_history w"
  by (simp add: read_state_def Let_def split: option.splits)

lemma read_state_calls:
  "calls (snd (read_state env u w)) =
     calls w @ [Call_select ''profiles'' (uid u), Call_select ''credit_info'' (uid u),
                Call_select ''financial_goals'' (uid u)]"
  by (simp add: read_state_def Let_def split: option.splits)

lemma parse_body_ok:
  "destructure_message (req_json req) = Inr m \<Longrightarrow>
     parse_body req w = (Inr m, console_log ''User message:'' (LogValue m) (called Call_req_json w))"
  by (simp add: parse_body_def Let_def)

lemma parse_body_rejected:
  "req_json req = Inl e \<Longrightarrow> parse_body req w = (Inl e, called Call_req_json w)"
  by (simp add: parse_body_def destructure_message_def Let_def)

lemma call_openai_reply:
  assumes "fetch env = FetchResponse r" and "response_ok r"
    and "resp_json r = Inr data" and "choices_0_message_content data = Inr aiResponse"
  shows "call_openai env k prompt m w =
           (Inr aiResponse,
            console_log ''AI response generated'' LogNothing
              (called (Call_fetch (chat_completion_request k prompt m)) w))"
  using assms by (simp add: call_openai_def Let_def)

lemma call_openai_status:
  assumes "fetch env = FetchResponse r" and "\<not> response_ok r"
  shows "\<exists>w5. call_openai env k prompt m w = (Inl (thrown_for_status r), w5)
           \<and> chat_history w5 = chat_history w
           \<and> calls w5 = calls w @ [Call_fetch (chat_completion_request k prompt m)]"
  using assms by (simp add: call_openai_def thrown_for_status_def Let_def split: sum.splits)

lemma get_prop_throws: "(\<exists>e. get_prop v k = Inl e) \<longleftrightarrow> nullish v"
  by (cases v) (auto simp: get_prop_def nullish_def split: option.splits list.splits)

lemma reply_unreadable_throws:
  "reply_unreadable data \<Longrightarrow> \<exists>e. choices_0_message_content data = Inl e"
  using get_prop_throws
  by (auto simp: reply_unreadable_def choices_0_message_content_def then_read_def
      split: sum.splits)

lemma call_openai_throws:
  assumes "fetch env = FetchResponse r"
    and "\<not> response_ok r \<or> (\<exists>e. resp_json r = Inl e)
         \<or> (\<exists>data. resp_json r = Inr data \<and> reply_unreadable data)"
  shows "\<exists>e w5. call_openai env k prompt m w = (Inl e, w5)
           \<and> chat_history w5 = chat_history w
           \<and> calls w5 = calls w @ [Call_fetch (chat_completion_request k prompt m)]"
proof (cases "response_ok r")
  case False
  then show ?thesis
    using call_openai_status [OF assms(1)] by blast
next
  case True
  show ?thesis
  proof (cases "resp_json r")
    case (Inl e)
    then show ?thesis
      using assms(1) True by (simp add: call_openai_def Let_def)
  next
    case (Inr data)
    then have "reply_unreadable data"
      using assms(2) True by simp
    then obtain e where "choices_0_message_content data = Inl e"
      using reply_unreadable_throws by blast
    then show ?thesis
      using assms(1) True Inr by (simp add: call_openai_def Let_def)
  qed
qed

lemma save_messages_history:
  "chat_history (save_messages env u m aiResponse w) =
     chat_history w
     @ (case insert_user_message env of
          None \<Rightarrow> [\<lparr>user_id = uid u, message = m, is_user_message = True\<rparr>]
        | Some e \<Rightarrow> [])
     @ (case insert_ai_message env of
          None \<Rightarrow> [\<lparr>user_id = uid u, message = aiResponse, is_user_message = False\<rparr>]
        | Some e \<Rightarrow> [])"
  by (simp add: save_messages_def Let_def split: option.splits)



subsection \<open>The turn as a whole\<close>

text \<open>The turn up to the call of the provider, when nothing before it throws.\<close>

lemma try_block_reaches_provider:
  assumes "truthy_str (OPEN_AI_API_KEY env)"
    and "auth_user (getUser env) = Some u" and "auth_error (getUser env) = None"
    and "destructure_message (req_json req) = Inr m"
  shows "\<exists>w4. try_block env req w =
           (case call_openai env (template_str (OPEN_AI_API_KEY env))
                   (systemPrompt (qdata (profiles_single env)) (qdata (credit_info_single env))
                      (qdata (financial_goals_select env))) m w4 of
              (Inl e, w5) \<Rightarrow> (Inl e, w5)
            | (Inr aiResponse, w5) \<Rightarrow>
                (Inr (reply_response aiResponse), save_messages env u m aiResponse w5))
         \<and> chat_history w4 = chat_history w
         \<and> calls w4 = calls w @ calls_before_fetch u"
proof -
  let ?w1 = "console_log ''User authenticated:'' (LogText (uid u)) (called Call_getUser w)"
  obtain st w2 where rs: "read_state env u ?w1 = (st, w2)"
    by (cases "read_state env u ?w1")
  have st: "st = (qdata (profiles_single env), qdata (credit_info_single env),
      qdata (financial_goals_select env))"
    using read_state_data [of env u ?w1] rs by simp
  have h2: "chat_history w2 = chat_history w"
    using read_state_history [of env u ?w1] rs by simp
  have c2: "calls w2 = calls w @ [Call_getUser, Call_select ''profiles'' (uid u),
       Call_select ''credit_info'' (uid u), Call_select ''financial_goals'' (uid u)]"
    using read_state_calls [of env u ?w1] rs by simp
  let ?w4 = "console_log ''System prompt created'' LogNothing
               (console_log ''User message:'' (LogValue m) (called Call_req_json w2))"
  have "try_block env req w =
           (case call_openai env (template_str (OPEN_AI_API_KEY env))
                   (systemPrompt (qdata (profiles_single env)) (qdata (credit_info_single env))
                      (qdata (financial_goals_select env))) m ?w4 of
              (Inl e, w5) \<Rightarrow> (Inl e, w5)
            | (Inr aiResponse, w5) \<Rightarrow>
                (Inr (reply_response aiResponse), save_messages env u m aiResponse w5))"
    using assms rs st
    by (simp add: try_block_def get_user_ok parse_body_ok Let_def)
  moreover have "chat_history ?w4 = chat_history w"
    using h2 by simp
  moreover have "calls ?w4 = calls w @ calls_before_fetch u"
    using c2 by (simp add: calls_before_fetch_def)
  ultimately show ?thesis
    by blast
qed

lemma serve_reply:
  assumes "req_method req \<noteq> ''OPTIONS''"
    and "truthy_str (OPEN_AI_API_KEY env)"
    and "auth_user (getUser env) = Some u" and "auth_error (getUser env) = None"
    and "destructure_message (req_json req) = Inr m"
    and "fetch env = FetchResponse r" and "response_ok r"
    and "resp_json r = Inr data" and "choices_0_message_content data = Inr aiResponse"
  shows "\<exists>w5. serve env req w = (reply_response aiResponse, save_messages env u m aiResponse w5)
           \<and> chat_history w5 = chat_history w
           \<and> calls w5 = calls w @ calls_before_fetch u @ [fetch_call env m]"
proof -
  obtain w4 where tb: "try_block env req w =
           (case call_openai env (template_str (OPEN_AI_API_KEY env))
                   (systemPrompt (qdata (profiles_single env)) (qdata (credit_info_single env))
                      (qdata (financial_goals_select env))) m w4 of
              (Inl e, w5) \<Rightarrow> (Inl e, w5)
            | (Inr aiResponse, w5) \<Rightarrow>
                (Inr (reply_response aiResponse), save_messages env u m aiResponse w5))"
    and h4: "chat_history w4 = chat_history w"
    and c4: "calls w4 = calls w @ calls_before_fetch u"
    using try_block_reaches_provider [OF assms(2-5)] by blast
  let ?w5 = "console_log ''AI response generated'' LogNothing (called (fetch_call env m) w4)"
  have "serve env req w = (reply_response aiResponse, save_messages env u m aiResponse ?w5)"
    using assms(1) tb by (simp add: serve_def call_openai_reply [OF assms(6-9)] fetch_call_def)
  moreover have "chat_history ?w5 = chat_history w"
    using h4 by simp
  moreover have "calls ?w5 = calls w @ calls_before_fetch u @ [fetch_call env m]"
    using c4 by simp
  ultimately show ?thesis
    by blast
qed

text \<open>A turn in which the call of the provider throws \<open>e\<close>.\<close>

lemma serve_thrown_at_provider:
  assumes "req_method req \<noteq> ''OPTIONS''"
    and "truthy_str (OPEN_AI_API_KEY env)"
    and "auth_user (getUser env) = Some u" and "auth_error (getUser env) = None"
    and "destructure_message (req_json req) = Inr m"
    and "\<And>w4. \<exists>w5. call_openai env (template_str (OPEN_AI_API_KEY env))
                   (systemPrompt (qdata (profiles_single env)) (qdata (credit_info_single env))
                      (qdata (financial_goals_select env))) m w4 = (Inl e, w5)
            \<and> chat_history w5 = chat_history w4
            \<and> calls w5 = calls w4 @ [fetch_call env m]"
  shows "fst (serve env req w) = error_response (error_message e)
         \<and> chat_history (snd (serve env req w)) = chat_history w
         \<and> calls (snd (serve env req w)) = calls w @ calls_before_fetch u @ [fetch_call env m]"
proof -
  obtain w4 where tb: "try_block env req w =
           (case call_openai env (template_str (OPEN_AI_API_KEY env))
                   (systemPrompt (qdata (profiles_single env)) (qdata (credit_info_single env))
                      (qdata (financial_goals_select env))) m w4 of
              (Inl e, w5) \<Rightarrow> (Inl e, w5)
            | (Inr aiResponse, w5) \<Rightarrow>
                (Inr (reply_response aiResponse), save_messages env u m aiResponse w5))"
    and h4: "chat_history w4 = chat_history w"
    and c4: "calls w4 = calls w @ calls_before_fetch u"
    using try_block_reaches_provider [OF assms(2-5)] by blast
  obtain w5 where co: "call_openai env (template_str (OPEN_AI_API_KEY env))
                   (systemPrompt (qdata (profiles_single env)) (qdata (credit_info_single env))
                      (qdata (financial_goals_select env))) m w4 = (Inl e, w5)"
    and h5: "chat_history w5 = chat_history w4"
    and c5: "calls w5 = calls w4 @ [fetch_call env m]"
    using assms(6) [of w4] by blast
  have "serve env req w =
          (error_response (error_message e),
           console_error ''Error in chat-with-ai function:'' (LogThrown e) w5)"
    using assms(1) tb co by (simp add: serve_def)
  then show ?thesis
    using h4 h5 c4 c5 by simp
qed

lemma serve_body_rejected:
  assumes "req_method req \<noteq> ''OPTIONS''"
    and "truthy_str (OPEN_AI_API_KEY env)"
    and "auth_user (getUser env) = Some u" and "auth_error (getUser env) = None"
    and "req_json req = Inl e"
  shows "\<exists>w3. serve env req w =
           (error_response (error_message e),
            console_error ''Error in chat-with-ai function:'' (LogThrown e) w3)
         \<and> chat_history w3 = chat_history w
         \<and> calls w3 = calls w @ calls_before_fetch u"
proof -
  let ?w1 = "console_log ''User authenticated:'' (LogText (uid u)) (called Call_getUser w)"
  obtain st w2 where rs: "read_state env u ?w1 = (st, w2)"
    by (cases "read_state env u ?w1")
  have h2: "chat_history w2 = chat_history w"
    using read_state_history [of env u ?w1] rs by simp
  have c2: "calls w2 = calls w @ [Call_getUser, Call_select ''profiles'' (uid u),
       Call_select ''credit_info'' (uid u), Call_select ''financial_goals'' (uid u)]"
    using read_state_calls [of env u ?w1] rs by simp
  have "serve env req w =
          (error_response (error_message e),
           console_error ''Error in chat-with-ai function:'' (LogThrown e)
             (called Call_req_json w2))"
    using assms rs
    by (simp add: serve_def try_block_def get_user_ok parse_body_rejected split: prod.splits)
  moreover have "chat_history (called Call_req_json w2) = chat_history w"
    using h2 by simp
  moreover have "calls (called Call_req_json w2) = calls w @ calls_before_fetch u"
    using c2 by (simp add: calls_before_fetch_def)
  ultimately show ?thesis
    by blast
qed




section \<open>The claims\<close>

text \<open>
  C1. In a turn in which the key is set, the user is authenticated, the body parses and
  has its message read, the provider answers ok with a payload from which the reply is
  read, and both inserts succeed, the chat history gains exactly two rows, the user's
  message with \<open>is_user_message\<close> true and then the reply with \<open>is_user_message\<close> false, and
  the answer to the caller has status 200 and carries the reply read from the payload.
\<close>

theorem successful_turn_records_both:
  assumes "req_method req \<noteq> ''OPTIONS''"
    and "truthy_str (OPEN_AI_API_KEY env)"
    and "auth_user (getUser env) = Some u" and "auth_error (getUser env) = None"
    and "destructure_message (req_json req) = Inr m"
    and "fetch env = FetchResponse r" and "response_ok r"
    and "resp_json r = Inr data" and "choices_0_message_content data = Inr aiResponse"
    and "insert_user_message env = None" and "insert_ai_message env = None"
  shows "chat_history (snd (serve env req w)) =
           chat_history w
           @ [\<lparr>user_id = uid u, message = m, is_user_message = True\<rparr>,
              \<lparr>user_id = uid u, message = aiResponse, is_user_message = False\<rparr>]
         \<and> res_status (fst (serve env req w)) = 200
         \<and> res_body (fst (serve env req w)) = JSON_stringify (JObj [(''response'', aiResponse)])"
proof -
  obtain w5 where "serve env req w = (reply_response aiResponse, save_messages env u m aiResponse w5)"
    and "chat_history w5 = chat_history w"
    using serve_reply [OF assms(1-9)] by blast
  then show ?thesis
    using assms(10,11) by (simp add: save_messages_history reply_response_def)
qed

text \<open>The example turn: an empty history gains the question and the reply, in this order.\<close>

theorem successful_turn_records_both_witness:
  "chat_history (snd (serve example_env example_request empty_world)) =
     [\<lparr>user_id = ''user-1'', message = example_message, is_user_message = True\<rparr>,
      \<lparr>user_id = ''user-1'', message = JStr ''Save 500'', is_user_message = False\<rparr>]
   \<and> res_status (fst (serve example_env example_request empty_world)) = 200
   \<and> res_body (fst (serve example_env example_request empty_world)) =
       JSON_stringify (JObj [(''response'', JStr ''Save 500'')])"
  using successful_turn_records_both [of example_request example_env example_user example_message
      example_answer example_payload "JStr ''Save 500''" empty_world]
  by (simp add: example_request_def example_env_def example_user_def example_message_def
      example_answer_def example_payload_def empty_world_def truthy_str_def
      destructure_message_def nullish_def then_read_def get_prop_def response_ok_def
      choices_0_message_content_def)

text \<open>
  C2. In a turn in which the provider is called and answers with a status that is not
  ok, the caller gets the error answer (status 500, a JSON body with the message of the
  thrown error), the chat history is as it was, and the call of the provider is the last
  call of the turn: no insert is made.
\<close>

theorem provider_failure_appends_nothing:
  assumes "req_method req \<noteq> ''OPTIONS''"
    and "truthy_str (OPEN_AI_API_KEY env)"
    and "auth_user (getUser env) = Some u" and "auth_error (getUser env) = None"
    and "destructure_message (req_json req) = Inr m"
    and "fetch env = FetchResponse r" and "\<not> response_ok r"
  shows "res_status (fst (serve env req w)) = 500
         \<and> res_body (fst (serve env req w)) =
             JSON_stringify (JObj [(''error'', JStr (error_message (thrown_for_status r)))])
         \<and> chat_history (snd (serve env req w)) = chat_history w
         \<and> calls (snd (serve env req w)) = calls w @ calls_before_fetch u @ [fetch_call env m]"
proof -
  have "\<exists>w5. call_openai env (template_str (OPEN_AI_API_KEY env))
                   (systemPrompt (qdata (profiles_single env)) (qdata (credit_info_single env))
                      (qdata (financial_goals_select env))) m w4 = (Inl (thrown_for_status r), w5)
            \<and> chat_history w5 = chat_history w4
            \<and> calls w5 = calls w4 @ [fetch_call env m]" for w4
    using call_openai_status [OF assms(6,7)] by (simp add: fetch_call_def)
  from serve_thrown_at_provider [OF assms(1-5) this, of w]
  show ?thesis
    by (simp add: error_response_def)
qed

text \<open>The example turn with the provider answering 429.\<close>

theorem provider_failure_appends_nothing_witness:
  "\<not> response_ok rate_limited
   \<and> res_status (fst (serve rate_limited_env example_request empty_world)) = 500
   \<and> res_body (fst (serve rate_limited_env example_request empty_world)) =
       JSON_stringify (JObj [(''error'', JStr ''OpenAI API error: 429'')])
   \<and> chat_history (snd (serve rate_limited_env example_request empty_world)) = []
   \<and> calls (snd (serve rate_limited_env example_request empty_world)) =
       calls_before_fetch example_user @ [fetch_call rate_limited_env example_message]"
  using provider_failure_appends_nothing [of example_request rate_limited_env example_user
      example_message rate_limited empty_world]
  by (simp add: example_request_def rate_limited_env_def example_env_def example_message_def
      rate_limited_def empty_world_def truthy_str_def destructure_message_def nullish_def
      get_prop_def response_ok_def thrown_for_status_def error_message_def
      show_nat.simps digit_char_def)

text \<open>
  C3. In a turn in which the provider call succeeds, the answer to the caller is the
  success answer with the reply whatever the two inserts answer: with any errors \<open>a\<close> and
  \<open>b\<close>, or none, in place of the answers of the inserts, the answer is the same.
\<close>

theorem recording_failure_keeps_reply:
  assumes "req_method req \<noteq> ''OPTIONS''"
    and "truthy_str (OPEN_AI_API_KEY env)"
    and "auth_user (getUser env) = Some u" and "auth_error (getUser env) = None"
    and "destructure_message (req_json req) = Inr m"
    and "fetch env = FetchResponse r" and "response_ok r"
    and "resp_json r = Inr data" and "choices_0_message_content data = Inr aiResponse"
  shows "fst (serve (env\<lparr>insert_user_message := a, insert_ai_message := b\<rparr>) req w) =
           \<lparr>res_status = 200, res_headers = json_headers,
            res_body = JSON_stringify (JObj [(''response'', aiResponse)])\<rparr>"
proof -
  let ?env = "env\<lparr>insert_user_message := a, insert_ai_message := b\<rparr>"
  have "truthy_str (OPEN_AI_API_KEY ?env)"
    and "auth_user (getUser ?env) = Some u" and "auth_error (getUser ?env) = None"
    and "fetch ?env = FetchResponse r"
    using assms by simp_all
  from serve_reply [OF assms(1) this(1-3) assms(5) this(4) assms(7-9), of w]
  show ?thesis
    by (auto simp: reply_response_def)
qed

text \<open>The example turn with a recorder that fails both inserts.\<close>

theorem recording_failure_keeps_reply_witness:
  "fst (serve recorder_down_env example_request empty_world) =
     \<lparr>res_status = 200, res_headers = json_headers,
      res_body = JSON_stringify (JObj [(''response'', JStr ''Save 500'')])\<rparr>
   \<and> insert_user_message recorder_down_env = Some storage_down
   \<and> insert_ai_message recorder_down_env = Some storage_down"
  using recording_failure_keeps_reply [of example_request example_env example_user example_message
      example_answer example_payload "JStr ''Save 500''" "Some storage_down" "Some storage_down"
      empty_world]
  by (simp add: example_request_def recorder_down_env_def example_env_def example_message_def
      example_answer_def example_payload_def truthy_str_def destructure_message_def nullish_def
      then_read_def get_prop_def response_ok_def choices_0_message_content_def)

text \<open>
  C4, as amended. For every credit row the credit block is part of the prompt, with its
  four lines. The credit score, the total debt and the utilization are each printed as
  the number, and as the words Not provided exactly when the field is null or zero; the
  late payments are printed as the number, as 0 when the field is null, and never as
  the words Not provided.
\<close>

theorem credit_block_fallbacks:
  "(\<exists>rest. systemPrompt p (Some c) g = user_information p @ credit_information c @ rest)
   \<and> (\<exists>score debt late utilization.
         credit_information c =
           ''\<newline>\<newline>Credit Information:\<newline>- Credit Score: '' @ score
           @ ''\<newline>- Total Debt: $'' @ debt
           @ ''\<newline>- Late Payments: '' @ late
           @ ''\<newline>- Credit Utilization: '' @ utilization @ ''%''
         \<and> score = or_int (credit_score c) ''Not provided''
         \<and> debt = or_decimal (total_debt c) ''Not provided''
         \<and> late = or_zero (late_payments c)
         \<and> utilization = or_decimal (credit_utilization c) ''Not provided'')
   \<and> (or_int x ''Not provided'' = ''Not provided'' \<longleftrightarrow> x = None \<or> x = Some 0)
   \<and> (or_decimal y ''Not provided'' = ''Not provided'' \<longleftrightarrow> y = None \<or> y = Some 0)
   \<and> or_int (Some n) ''Not provided'' = (if n = 0 then ''Not provided'' else show_int n)
   \<and> or_decimal (Some a) ''Not provided'' = (if a = 0 then ''Not provided'' else show_decimal a)
   \<and> or_zero None = ''0''
   \<and> or_zero (Some n) = show_int n
   \<and> or_zero z \<noteq> ''Not provided''"
proof -
  have blocks: "\<exists>rest. systemPrompt p (Some c) g = user_information p @ credit_information c @ rest"
    by (simp add: systemPrompt_blocks)
  have int_iff: "or_int x ''Not provided'' = ''Not provided'' \<longleftrightarrow> x = None \<or> x = Some 0"
    using show_int_not_provided by (auto simp: or_int_def split: option.splits)
  have dec_iff: "or_decimal y ''Not provided'' = ''Not provided'' \<longleftrightarrow> y = None \<or> y = Some 0"
    using show_decimal_not_provided by (auto simp: or_decimal_def split: option.splits)
  have zero: "show_int 0 = ''0''"
    by (simp add: show_int_def show_nat.simps digit_char_def)
  have late_none: "or_zero None = ''0''"
    by (simp add: or_zero_def zero)
  have late_some: "or_zero (Some n) = show_int n"
    by (simp add: or_zero_def)
  have late_np: "or_zero z \<noteq> ''Not provided''"
    using show_int_not_provided by (simp add: or_zero_def)
  show ?thesis
    using blocks int_iff dec_iff late_none late_some late_np
    by (simp add: credit_information_def or_int_def or_decimal_def)
qed

text \<open>
  C4 as stated fails on a credit row whose credit score, total debt and utilization are
  zero, not null: the three are printed as Not provided.
\<close>

theorem credit_block_zero_counterexample:
  "credit_score zero_credit = Some 0
   \<and> total_debt zero_credit = Some 0
   \<and> credit_utilization zero_credit = Some 0
   \<and> systemPrompt None (Some zero_credit) None =
       user_information None
       @ ''\<newline>\<newline>Credit Information:\<newline>- Credit Score: Not provided\<newline>- Total Debt: $Not provided\<newline>- Late Payments: 0\<newline>- Credit Utilization: Not provided%''
       @ ''\<newline>\<newline>'' @ closing_instruction"
  by (simp add: systemPrompt_def credit_information_def zero_credit_def or_int_def
      or_decimal_def or_zero_def show_int_def show_nat.simps digit_char_def)

text \<open>
  C5. For every profile or none, every credit row or none, and every list of goals,
  empty or null too, the prompt is a text that begins with the persona preamble, ends
  with the closing instruction, and is not empty. The function has no error result and
  its only recursion is over the list of goals.
\<close>

theorem systemPrompt_total:
  "(\<exists>middle. systemPrompt p c g = persona_preamble @ middle @ closing_instruction)
   \<and> systemPrompt p c g \<noteq> []"
proof
  have "systemPrompt p c g = persona_preamble @ (drop (length persona_preamble) (user_information p)
     @ (case c of None \<Rightarrow> [] | Some ci \<Rightarrow> credit_information ci)
     @ (case g of
          None \<Rightarrow> []
        | Some gs \<Rightarrow> if gs = [] then [] else ''\<newline>\<newline>Financial Goals:'' @ numbered_goals gs)
     @ ''\<newline>\<newline>'') @ closing_instruction"
    by (simp add: systemPrompt_blocks user_information_def)
  then show "\<exists>middle. systemPrompt p c g = persona_preamble @ middle @ closing_instruction"
    by (rule exI)
  show "systemPrompt p c g \<noteq> []"
    by (simp add: systemPrompt_blocks closing_instruction_def)
qed

text \<open>
  C6, as amended. For a list of goals that is not empty, the prompt has, after the
  heading of the goal block, the entries of the goals in the order of the list, numbered
  from 1 to the length of the list. In an entry the target suffix is there exactly when
  the goal has a target amount that is not zero, and the due suffix exactly when it has
  a target date that is not the empty text, each whatever the other is.
\<close>

theorem goal_block_order:
  "gs \<noteq> [] \<Longrightarrow>
     systemPrompt p c (Some gs) =
       user_information p
       @ (case c of None \<Rightarrow> [] | Some ci \<Rightarrow> credit_information ci)
       @ ''\<newline>\<newline>Financial Goals:''
       @ concat (map (\<lambda>(n, g). goal_entry n g) (zip [1..<Suc (length gs)] gs))
       @ ''\<newline>\<newline>'' @ closing_instruction
     \<and> (target_suffix g = [] \<longleftrightarrow> target_amount g = None \<or> target_amount g = Some 0)
     \<and> (due_suffix g = [] \<longleftrightarrow> target_date g = None \<or> target_date g = Some [])"
  by (simp add: systemPrompt_blocks numbered_goals_def target_suffix_def due_suffix_def
      split: option.splits)

text \<open>Two goals: the first with a target amount only, the second with a date only.\<close>

theorem goal_block_order_witness:
  "[house_goal, zero_target_goal] \<noteq> []
   \<and> systemPrompt None None (Some [house_goal, zero_target_goal]) =
       user_information None
       @ ''\<newline>\<newline>Financial Goals:\<newline>1. Buy a house (Target: $400000)\<newline>   Status: active\<newline>   Priority: high\<newline>2. Pay off card (Due: 2026-01-31)\<newline>   Status: active\<newline>   Priority: medium\<newline>   Description: No new debt''
       @ ''\<newline>\<newline>'' @ closing_instruction"
proof -
  have nonempty: "[house_goal, zero_target_goal] \<noteq> []"
    by simp
  have one: "show_nat (Suc 0) = ''1''" and two: "show_nat (Suc (Suc 0)) = ''2''"
    and amount: "show_decimal 40000000 = ''400000''"
    by (simp_all add: show_decimal_def show_fraction_def show_nat.simps digit_char_def)
  show ?thesis
    using goal_block_order [OF nonempty, of None None house_goal]
    by (simp add: goal_entry_def target_suffix_def due_suffix_def description_line_def
        or_str_def house_goal_def zero_target_goal_def one two amount)
qed

text \<open>
  C6 as stated fails on a goal whose target amount is zero, not null: its entry has no
  target suffix.
\<close>

theorem goal_target_zero_counterexample:
  "target_amount zero_target_goal = Some 0
   \<and> systemPrompt None None (Some [zero_target_goal]) =
       user_information None
       @ ''\<newline>\<newline>Financial Goals:\<newline>1. Pay off card (Due: 2026-01-31)\<newline>   Status: active\<newline>   Priority: medium\<newline>   Description: No new debt''
       @ ''\<newline>\<newline>'' @ closing_instruction"
  by (simp add: systemPrompt_def goal_callback_def truthy_num_def truthy_str_def
      template_str_def or_str_def zero_target_goal_def show_nat.simps digit_char_def)

text \<open>
  C7, as amended. In a turn in which the provider is called and answers, the turn fails
  with the one error answer (status 500, a JSON body with an error message) and leaves
  the chat history as it was when the status is not ok, when the body of an ok answer is
  not JSON, and when in the parsed body \<open>data\<close>, \<open>data.choices\<close>, \<open>data.choices[0]\<close> or
  \<open>data.choices[0].message\<close> is null or undefined.
\<close>

theorem provider_error_cases:
  assumes "req_method req \<noteq> ''OPTIONS''"
    and "truthy_str (OPEN_AI_API_KEY env)"
    and "auth_user (getUser env) = Some u" and "auth_error (getUser env) = None"
    and "destructure_message (req_json req) = Inr m"
    and "fetch env = FetchResponse r"
    and "\<not> response_ok r \<or> (\<exists>e. resp_json r = Inl e)
         \<or> (\<exists>data. resp_json r = Inr data \<and> reply_unreadable data)"
  shows "(\<exists>text. fst (serve env req w) = error_response text)
         \<and> chat_history (snd (serve env req w)) = chat_history w"
proof -
  obtain w4 where tb: "try_block env req w =
           (case call_openai env (template_str (OPEN_AI_API_KEY env))
                   (systemPrompt (qdata (profiles_single env)) (qdata (credit_info_single env))
                      (qdata (financial_goals_select env))) m w4 of
              (Inl e, w5) \<Rightarrow> (Inl e, w5)
            | (Inr aiResponse, w5) \<Rightarrow>
                (Inr (reply_response aiResponse), save_messages env u m aiResponse w5))"
    and h4: "chat_history w4 = chat_history w"
    using try_block_reaches_provider [OF assms(2-5)] by blast
  obtain e w5 where co: "call_openai env (template_str (OPEN_AI_API_KEY env))
                   (systemPrompt (qdata (profiles_single env)) (qdata (credit_info_single env))
                      (qdata (financial_goals_select env))) m w4 = (Inl e, w5)"
    and h5: "chat_history w5 = chat_history w4"
    using call_openai_throws [OF assms(6,7)] by blast
  have "serve env req w =
          (error_response (error_message e),
           console_error ''Error in chat-with-ai function:'' (LogThrown e) w5)"
    using assms(1) tb co by (simp add: serve_def)
  then show ?thesis
    using h4 h5 by auto
qed

text \<open>The example turn with an ok answer whose list of choices is empty.\<close>

theorem provider_error_cases_witness:
  "response_ok no_choices_answer
   \<and> reply_unreadable no_choices_payload
   \<and> (\<exists>text. fst (serve no_choices_env example_request empty_world) = error_response text)
   \<and> chat_history (snd (serve no_choices_env example_request empty_world)) = []"
  using provider_error_cases [of example_request no_choices_env example_user example_message
      no_choices_answer empty_world]
  by (simp add: example_request_def no_choices_env_def example_env_def example_message_def
      no_choices_answer_def no_choices_payload_def empty_world_def truthy_str_def
      destructure_message_def get_prop_def response_ok_def reply_unreadable_def nullish_def)

text \<open>
  C7 as stated fails on an ok answer whose message has no content field: the reply is
  undefined, nothing is thrown, the caller gets the success answer with status 200, and
  the user's message is recorded.
\<close>

theorem content_missing_counterexample:
  "response_ok content_missing_answer
   \<and> get_prop (JObj [(''role'', JStr ''assistant'')]) ''content'' = Inr JUndefined
   \<and> choices_0_message_content content_missing_payload = Inr JUndefined
   \<and> fst (serve content_missing_env example_request empty_world) =
       \<lparr>res_status = 200, res_headers = json_headers,
        res_body = JSON_stringify (JObj [(''response'', JUndefined)])\<rparr>
   \<and> chat_history (snd (serve content_missing_env example_request empty_world)) =
       [\<lparr>user_id = ''user-1'', message = example_message, is_user_message = True\<rparr>]"
proof -
  have ok: "response_ok content_missing_answer"
    by (simp add: response_ok_def content_missing_answer_def)
  have reply: "choices_0_message_content content_missing_payload = Inr JUndefined"
    by (simp add: choices_0_message_content_def content_missing_payload_def then_read_def
        get_prop_def)
  have "\<exists>w5. serve content_missing_env example_request empty_world =
          (reply_response JUndefined,
           save_messages content_missing_env example_user example_message JUndefined w5)
        \<and> chat_history w5 = chat_history empty_world
        \<and> calls w5 = calls empty_world @ calls_before_fetch example_user
            @ [fetch_call content_missing_env example_message]"
    by (rule serve_reply [OF _ _ _ _ _ _ ok _ reply])
       (simp_all add: example_request_def content_missing_env_def example_env_def
         content_missing_answer_def example_message_def truthy_str_def destructure_message_def
         nullish_def get_prop_def)
  then show ?thesis
    using ok reply
    by (auto simp: save_messages_history reply_response_def content_missing_env_def
        example_env_def example_user_def empty_world_def get_prop_def)
qed




text \<open>
  C9. In a turn in which the key is set, the user is authenticated and
  \<^verbatim>\<open>req.json()\<close> rejects, as it does for a missing body and for a body that is not JSON,
  the caller gets the error answer (status 500, a JSON body with the message of the
  rejection), the chat history is as it was, and the calls of the turn are the
  authentication, the three reads and then the parsing of the body: the provider is not
  called and no insert is made.
\<close>

theorem unparsable_body_fails_before_provider:
  assumes "req_method req \<noteq> ''OPTIONS''"
    and "truthy_str (OPEN_AI_API_KEY env)"
    and "auth_user (getUser env) = Some u" and "auth_error (getUser env) = None"
    and "req_json req = Inl e"
  shows "fst (serve env req w) =
           \<lparr>res_status = 500, res_headers = json_headers,
            res_body = JSON_stringify (JObj [(''error'', JStr (error_message e))])\<rparr>
         \<and> chat_history (snd (serve env req w)) = chat_history w
         \<and> calls (snd (serve env req w)) =
             calls w @ [Call_getUser, Call_select ''profiles'' (uid u),
                        Call_select ''credit_info'' (uid u),
                        Call_select ''financial_goals'' (uid u), Call_req_json]"
  using serve_body_rejected [OF assms, of w]
  by (auto simp: error_response_def calls_before_fetch_def)

text \<open>The example turn with a request that has no body.\<close>

theorem unparsable_body_fails_before_provider_witness:
  "fst (serve example_env no_body_request empty_world) =
     \<lparr>res_status = 500, res_headers = json_headers,
      res_body = JSON_stringify (JObj [(''error'', JStr ''Unexpected end of JSON input'')])\<rparr>
   \<and> chat_history (snd (serve example_env no_body_request empty_world)) = []
   \<and> calls (snd (serve example_env no_body_request empty_world)) =
       [Call_getUser, Call_select ''profiles'' ''user-1'', Call_select ''credit_info'' ''user-1'',
        Call_select ''financial_goals'' ''user-1'', Call_req_json]"
  using unparsable_body_fails_before_provider [of no_body_request example_env example_user
      "Rejected ''Unexpected end of JSON input''" empty_world]
  by (simp add: no_body_request_def example_env_def example_user_def empty_world_def
      truthy_str_def error_message_def)



end
